theory Spec2Isabelle
  imports Main "HOL-Library.Word"
begin

section \<open>JavaScript strings\<close>

text \<open>
  A JavaScript string is a sequence of UTF-16 code units. The regular expressions of the
  source carry no \<open>u\<close> flag, so every character class matches one code unit at a time.
  \<open>str\<close> turns an ASCII literal into such a string.
\<close>

type_synonym code_unit = "16 word"
type_synonym js_string = "code_unit list"

definition str :: "string \<Rightarrow> js_string" where
  "str s = map of_char s"

definition is_upper :: "code_unit \<Rightarrow> bool" where
  "is_upper c = (0x41 \<le> c \<and> c \<le> 0x5A)"

definition is_lower :: "code_unit \<Rightarrow> bool" where
  "is_lower c = (0x61 \<le> c \<and> c \<le> 0x7A)"

definition is_digit :: "code_unit \<Rightarrow> bool" where
  "is_digit c = (0x30 \<le> c \<and> c \<le> 0x39)"

text \<open>The class \<open>[a-zA-Z0-9]\<close>.\<close>

definition is_alnum :: "code_unit \<Rightarrow> bool" where
  "is_alnum c = (is_lower c \<or> is_upper c \<or> is_digit c)"

text \<open>The class \<open>[a-zA-Z0-9.\-_]\<close>: alphanumerics, full stop (0x2E), hyphen (0x2D), underscore (0x5F).\<close>

definition is_valid :: "code_unit \<Rightarrow> bool" where
  "is_valid c = (is_alnum c \<or> c = 0x2E \<or> c = 0x2D \<or> c = 0x5F)"

text \<open>The class of the code units 0x0300 to 0x036F, the combining diacritical marks.\<close>

definition is_diacritic :: "code_unit \<Rightarrow> bool" where
  "is_diacritic c = (0x300 \<le> c \<and> c \<le> 0x36F)"

text \<open>
  \<open>s.replace(/[class]/g, r)\<close> for a class of single code units and a replacement \<open>r\<close>
  without \<open>$\<close> patterns: every matching unit is replaced, the others are kept.
\<close>

definition replace_each :: "(code_unit \<Rightarrow> bool) \<Rightarrow> js_string \<Rightarrow> js_string \<Rightarrow> js_string" where
  "replace_each cls r s = concat (map (\<lambda>c. if cls c then r else [c]) s)"

text \<open>\<open>s.replace(/_+/g, '_')\<close>: every maximal run of underscores becomes one underscore.\<close>

fun collapse_underscores :: "js_string \<Rightarrow> js_string" where
  "collapse_underscores (a # b # cs) =
     (if a = 0x5F \<and> b = 0x5F then collapse_underscores (b # cs)
      else a # collapse_underscores (b # cs))"
| "collapse_underscores cs = cs"

text \<open>
  \<open>toLowerCase\<close> on one code unit, as far as the source needs it: it is applied to the
  result of the replacement by \<open>[^a-zA-Z0-9]\<close>, which holds only ASCII letters, digits and
  underscores (lemma \<open>safe_units_replace\<close> below), and there it maps \<open>A-Z\<close> to \<open>a-z\<close> and
  keeps the rest.
\<close>

definition toLowerCase_unit :: "code_unit \<Rightarrow> code_unit" where
  "toLowerCase_unit c = (if is_upper c then c + 0x20 else c)"

definition toLowerCase :: "js_string \<Rightarrow> js_string" where
  "toLowerCase s = map toLowerCase_unit s"

text \<open>\<open>s.split(sep)\<close> for a separator of one code unit: never the empty array.\<close>

fun split :: "js_string \<Rightarrow> code_unit \<Rightarrow> js_string list" where
  "split [] sep = [[]]"
| "split (c # cs) sep =
     (if c = sep then [] # split cs sep
      else (case split cs sep of [] \<Rightarrow> [[c]] | p # ps \<Rightarrow> (c # p) # ps))"

text \<open>\<open>Array.prototype.pop\<close>: the last element, \<open>undefined\<close> (here \<open>None\<close>) on the empty array.\<close>

definition pop :: "'a list \<Rightarrow> 'a option" where
  "pop xs = (if xs = [] then None else Some (last xs))"

text \<open>\<open>s.lastIndexOf(c)\<close>: the index of the last occurrence, \<open>-1\<close> when there is none.\<close>

fun lastIndexOf :: "js_string \<Rightarrow> code_unit \<Rightarrow> int" where
  "lastIndexOf [] c = -1"
| "lastIndexOf (x # xs) c =
     (let r = lastIndexOf xs c
      in if 0 \<le> r then r + 1 else if x = c then 0 else -1)"

text \<open>
  \<open>s.substring(a, b)\<close>: both indices are clamped to \<open>[0, length]\<close> and swapped when
  \<open>a > b\<close>.
\<close>

definition clamp_index :: "js_string \<Rightarrow> int \<Rightarrow> nat" where
  "clamp_index s i = (if i < 0 then 0 else min (nat i) (length s))"

definition substring :: "js_string \<Rightarrow> int \<Rightarrow> int \<Rightarrow> js_string" where
  "substring s a b =
     (let lo = min (clamp_index s a) (clamp_index s b);
          hi = max (clamp_index s a) (clamp_index s b)
      in take (hi - lo) (drop lo s))"

text \<open>
  The template literal \<open>`${n}`\<close> for an integral number of magnitude below \<open>10^21\<close>
  (\<open>Date.now()\<close> is an integer of magnitude at most \<open>8.64 * 10^15\<close>): the decimal digits,
  after a minus sign when negative.
\<close>

fun digits :: "nat \<Rightarrow> js_string" where
  "digits n = (if n < 10 then [0x30 + of_nat n] else digits (n div 10) @ [0x30 + of_nat (n mod 10)])"

declare digits.simps [simp del]

definition Number_toString :: "int \<Rightarrow> js_string" where
  "Number_toString n = (if n < 0 then 0x2D # digits (nat (- n)) else digits (nat n))"


section \<open>The upload route: file name sanitizing\<close>

text \<open>
  The bindings of \<open>POST\<close> in \<open>api/upload/route.ts\<close>, each as a function of what it is
  computed from. \<open>nfd\<close> stands for the platform's \<open>String.prototype.normalize('NFD')\<close>,
  which is no code of this repository: it is a parameter.
\<close>

definition safeCompanyName :: "js_string \<Rightarrow> js_string" where
  "safeCompanyName companyName =
     toLowerCase (replace_each (\<lambda>c. \<not> is_alnum c) (str ''_'') companyName)"

definition fileExtension :: "js_string \<Rightarrow> js_string" where
  "fileExtension originalName =
     (case pop (split originalName 0x2E) of
        None \<Rightarrow> []
      | Some e \<Rightarrow> (if e = [] then [] else e))"

definition baseName :: "js_string \<Rightarrow> js_string" where
  "baseName originalName =
     substring originalName 0
       (let i = lastIndexOf originalName 0x2E
        in if i = 0 then int (length originalName) else i)"

definition safeBaseName :: "(js_string \<Rightarrow> js_string) \<Rightarrow> js_string \<Rightarrow> js_string" where
  "safeBaseName nfd originalName =
     collapse_underscores
       (replace_each (\<lambda>c. \<not> is_valid c) (str ''_'')
          (replace_each is_diacritic []
             (nfd (baseName originalName))))"

definition storageFileName ::
  "(js_string \<Rightarrow> js_string) \<Rightarrow> js_string \<Rightarrow> js_string \<Rightarrow> int \<Rightarrow> js_string" where
  "storageFileName nfd companyName originalName timestamp =
     safeCompanyName companyName @ str ''_'' @ safeBaseName nfd originalName @ str ''_''
       @ Number_toString timestamp @ str ''.'' @ fileExtension originalName"

text \<open>The key handed to the storage client: \<open>`${folder}/${storageFileName}`\<close>.\<close>

definition storagePath ::
  "(js_string \<Rightarrow> js_string) \<Rightarrow> js_string \<Rightarrow> js_string \<Rightarrow> js_string \<Rightarrow> int \<Rightarrow> js_string" where
  "storagePath nfd folder companyName originalName timestamp =
     folder @ str ''/'' @ storageFileName nfd companyName originalName timestamp"


section \<open>The upload route: request handling\<close>

text \<open>
  A call that may throw returns \<open>Throws\<close> in the model; \<open>try\<close>/\<open>catch\<close> is a case
  distinction on it.
\<close>

datatype 'a attempt = Returns 'a | Throws

record js_file =
  name :: js_string
  content_type :: js_string
  content :: "8 word list"

text \<open>
  A value of a multipart form is a string or a file, and \<open>formData.get\<close> is \<open>null\<close> (here
  \<open>None\<close>) for a field that is absent. The casts \<open>as File\<close> and \<open>as string\<close> of the route
  check nothing, so each of its three fields can hold either kind of value.
\<close>

datatype form_entry = String_value js_string | File_value js_file

record multipart_form =
  get_file :: "form_entry option"
  get_folder :: "form_entry option"
  get_companyName :: "form_entry option"

text \<open>The JSON bodies \<open>{ path }\<close> and \<open>{ error }\<close>.\<close>

record json_body =
  path :: "js_string option"
  error :: "js_string option"

text \<open>An HTTP response; \<open>body\<close> is \<open>None\<close> when it does not parse as JSON.\<close>

record http_response =
  status :: nat
  body :: "json_body option"

definition json_response :: "json_body \<Rightarrow> nat \<Rightarrow> http_response" where
  "json_response b st = \<lparr>status = st, body = Some b\<rparr>"

text \<open>
  What \<open>supabase.storage.from(...).upload(...)\<close> resolves to, \<open>{ data, error }\<close>:
  \<open>data_path\<close> is \<open>data.path\<close>, \<open>None\<close> when \<open>data\<close> is \<open>null\<close>, and \<open>upload_error\<close> is
  \<open>error.message\<close>, \<open>None\<close> when \<open>error\<close> is \<open>null\<close>.
\<close>

record upload_result =
  data_path :: "js_string option"
  upload_error :: "js_string option"

text \<open>JavaScript truthiness of a nullable string: neither \<open>null\<close> nor empty.\<close>

definition truthy :: "js_string option \<Rightarrow> bool" where
  "truthy s = (case s of None \<Rightarrow> False | Some v \<Rightarrow> v \<noteq> [])"

text \<open>\<open>!v\<close> for a form value: \<open>null\<close> and the empty string are falsy, a file never is.\<close>

definition falsy :: "form_entry option \<Rightarrow> bool" where
  "falsy v =
     (case v of
        None \<Rightarrow> True
      | Some (String_value s) \<Rightarrow> s = []
      | Some (File_value f) \<Rightarrow> False)"

text \<open>\<open>`${v}`\<close> for a form value.\<close>

definition template_string :: "form_entry option \<Rightarrow> js_string" where
  "template_string v =
     (case v of
        None \<Rightarrow> str ''null''
      | Some (String_value s) \<Rightarrow> s
      | Some (File_value f) \<Rightarrow> str ''[object File]'')"

text \<open>The response of the \<open>catch\<close> block.\<close>

definition server_error :: http_response where
  "server_error = json_response \<lparr>path = None, error = Some (str ''Server error occurred'')\<rparr> 500"

text \<open>
  \<open>POST\<close>. Its parameters are what the handler takes from outside: the platform's NFD
  normalization, the storage client, \<open>Date.now()\<close> and the outcome of
  \<open>request.formData()\<close>. Past the guard, \<open>companyName.replace\<close> throws when the company
  name is a file (a file has no such method), \<open>originalName.split\<close> throws when the file
  is a string (its \<open>name\<close> is \<open>undefined\<close>), and \<open>data.path\<close> throws when the storage
  client resolves to neither data nor error; the \<open>catch\<close> block answers each of them.
  Creating the client and reading the file's bytes are taken not to throw.
\<close>

definition POST ::
  "(js_string \<Rightarrow> js_string) \<Rightarrow> (js_string \<Rightarrow> 8 word list \<Rightarrow> js_string \<Rightarrow> upload_result attempt)
     \<Rightarrow> int \<Rightarrow> multipart_form attempt \<Rightarrow> http_response" where
  "POST nfd upload timestamp request =
     (case request of
        Throws \<Rightarrow> server_error
      | Returns formData \<Rightarrow>
          if falsy (get_file formData) \<or> falsy (get_folder formData)
             \<or> falsy (get_companyName formData)
          then json_response \<lparr>path = None, error = Some (str ''Missing required fields'')\<rparr> 400
          else
            (case get_companyName formData of
               Some (String_value cn) \<Rightarrow>
                 (case get_file formData of
                    Some (File_value f) \<Rightarrow>
                      (case upload
                              (storagePath nfd (template_string (get_folder formData)) cn (name f)
                                 timestamp)
                              (content f) (content_type f) of
                         Throws \<Rightarrow> server_error
                       | Returns result \<Rightarrow>
                           (case upload_error result of
                              Some message \<Rightarrow>
                                json_response \<lparr>path = None, error = Some message\<rparr> 500
                            | None \<Rightarrow>
                                (case data_path result of
                                   None \<Rightarrow> server_error
                                 | Some p \<Rightarrow>
                                     json_response \<lparr>path = Some p, error = None\<rparr> 200)))
                  | _ \<Rightarrow> server_error)
             | _ \<Rightarrow> server_error))"


section \<open>The submission form: \<open>uploadFile\<close> and \<open>onSubmit\<close>\<close>

text \<open>
  The outside world of the browser is a state \<open>'w\<close> threaded through every call:
  \<open>fetch\<close> posts a form to \<open>/api/upload\<close>, \<open>db_insert\<close> is
  \<open>supabase.from("customer_documents_multi").insert\<close> and resolves to its \<open>error\<close>
  (\<open>None\<close> for \<open>null\<close>), \<open>now_iso\<close> is \<open>new Date().toISOString()\<close>.
\<close>

text \<open>
  A JavaScript object with string keys, as the list of its entries in the order in which
  \<open>Object.keys\<close> goes through them: the order of insertion, for keys that are no array
  indices (none of the twelve keys below is one).
\<close>

type_synonym 'v js_object = "(js_string \<times> 'v) list"

definition obj_get :: "'v js_object \<Rightarrow> js_string \<Rightarrow> 'v option" where
  "obj_get obj k = map_of obj k"

fun obj_set :: "'v js_object \<Rightarrow> js_string \<Rightarrow> 'v \<Rightarrow> 'v js_object" where
  "obj_set [] k v = [(k, v)]"
| "obj_set ((k', v') # kvs) k v =
     (if k' = k then (k', v) # kvs else (k', v') # obj_set kvs k v)"

text \<open>
  The form that \<open>uploadFile\<close> builds with \<open>formData.append\<close>: a file and two strings
  (\<open>file_entry\<close> is the field \<open>file\<close>), and the multipart form the route reads from it.
\<close>

record form_data =
  file_entry :: "js_file option"
  folder :: "js_string option"
  companyName :: "js_string option"

definition multipart :: "form_data \<Rightarrow> multipart_form" where
  "multipart formData =
     \<lparr>get_file = map_option File_value (file_entry formData),
      get_folder = map_option String_value (folder formData),
      get_companyName = map_option String_value (companyName formData)\<rparr>"

record new_row =
  company_name :: js_string
  document_paths :: "js_string list js_object"
  uploaded_at :: js_string

record 'w browser =
  fetch :: "'w \<Rightarrow> form_data \<Rightarrow> http_response attempt \<times> 'w"
  db_insert :: "'w \<Rightarrow> new_row \<Rightarrow> js_string option attempt \<times> 'w"
  now_iso :: "'w \<Rightarrow> js_string"

text \<open>\<open>response.ok\<close>: the status is in the range 200 to 299.\<close>

definition ok :: "http_response \<Rightarrow> bool" where
  "ok r = (200 \<le> status r \<and> status r \<le> 299)"

text \<open>
  \<open>uploadFile\<close>: the stored path, or \<open>null\<close>/\<open>undefined\<close> (here \<open>None\<close>) when the
  request throws, the response is not \<open>ok\<close>, its body is no JSON, or the body has no
  \<open>path\<close>. The guard \<open>if (!file) return null\<close> never fires on a \<open>File\<close>.
\<close>

definition uploadFile ::
  "'w browser \<Rightarrow> 'w \<Rightarrow> js_file \<Rightarrow> js_string \<Rightarrow> js_string \<Rightarrow> js_string option \<times> 'w" where
  "uploadFile env w f fo cn =
     (let formData = \<lparr>file_entry = Some f, folder = Some fo, companyName = Some cn\<rparr>;
          (response, w') = fetch env w formData
      in case response of
           Throws \<Rightarrow> (None, w')
         | Returns r \<Rightarrow>
             if \<not> ok r then (None, w')
             else (case body r of None \<Rightarrow> (None, w') | Some result \<Rightarrow> (path result, w')))"

text \<open>The validated form values: the company name and, per field, the selected files.\<close>

record form_values =
  data_companyName :: js_string
  data_files :: "js_string \<rightharpoonup> js_file list"

record doc_type =
  key :: js_string
  label :: js_string

definition documentTypes :: "doc_type list" where
  "documentTypes =
     [\<lparr>key = str ''companyRegistration'', label = str ''Company Registration''\<rparr>,
      \<lparr>key = str ''companyDeclaration'', label = str ''Company Declaration''\<rparr>,
      \<lparr>key = str ''importPermit'', label = str ''Import Permit''\<rparr>,
      \<lparr>key = str ''tk10'', label = str ''TK 10''\<rparr>,
      \<lparr>key = str ''tk11'', label = str ''TK 11''\<rparr>,
      \<lparr>key = str ''tk32'', label = str ''TK 32''\<rparr>,
      \<lparr>key = str ''tk31'', label = str ''TK 31''\<rparr>,
      \<lparr>key = str ''purchaseOrder'', label = str ''Purchase Order''\<rparr>,
      \<lparr>key = str ''idCardCopy'', label = str ''ID Card Copy''\<rparr>,
      \<lparr>key = str ''msds'', label = str ''MSDS''\<rparr>,
      \<lparr>key = str ''commercialInvoice'', label = str ''Commercial Invoice''\<rparr>,
      \<lparr>key = str ''packingList'', label = str ''Packing List''\<rparr>]"

text \<open>
  The variables of \<open>onSubmit\<close> that its loops update, the world, and \<open>calls\<close>, the
  trace of the \<open>uploadFile\<close> calls made so far: the form sent and what came back.
\<close>

record 'w upload_state =
  world :: 'w
  documentPaths :: "js_string list js_object"
  anyUploadsSucceeded :: bool
  calls :: "(form_data \<times> js_string option) list"

text \<open>\<open>documentTypes.forEach(doc => { documentPaths[doc.key] = []; })\<close>\<close>

fun init_paths :: "doc_type list \<Rightarrow> js_string list js_object \<Rightarrow> js_string list js_object" where
  "init_paths [] obj = obj"
| "init_paths (doc # docs) obj = init_paths docs (obj_set obj (key doc) [])"

text \<open>
  The body of the inner loop. \<open>documentPaths[doc.key].push(path)\<close> throws when the key is
  missing; the \<open>catch\<close> around it logs and goes on, before \<open>anyUploadsSucceeded\<close> is set.
\<close>

definition upload_one ::
  "'w browser \<Rightarrow> doc_type \<Rightarrow> js_string \<Rightarrow> js_file \<Rightarrow> 'w upload_state \<Rightarrow> 'w upload_state" where
  "upload_one env doc cn f s =
     (let (p, w') = uploadFile env (world s) f (key doc) cn;
          s' = s\<lparr>world := w',
                 calls := calls s @ [(\<lparr>file_entry = Some f, folder = Some (key doc), companyName = Some cn\<rparr>, p)]\<rparr>
      in case p of
           None \<Rightarrow> s'
         | Some v \<Rightarrow>
             if v = [] then s'
             else (case obj_get (documentPaths s') (key doc) of
                     None \<Rightarrow> s'
                   | Some ps \<Rightarrow>
                       s'\<lparr>documentPaths := obj_set (documentPaths s') (key doc) (ps @ [v]),
                          anyUploadsSucceeded := True\<rparr>))"

text \<open>\<open>for (let i = 0; i < files.length; i++)\<close>\<close>

fun upload_files ::
  "'w browser \<Rightarrow> doc_type \<Rightarrow> js_string \<Rightarrow> js_file list \<Rightarrow> 'w upload_state \<Rightarrow> 'w upload_state" where
  "upload_files env doc cn [] s = s"
| "upload_files env doc cn (f # fs) s = upload_files env doc cn fs (upload_one env doc cn f s)"

text \<open>\<open>for (const doc of documentTypes)\<close>\<close>

fun process_docs ::
  "'w browser \<Rightarrow> form_values \<Rightarrow> doc_type list \<Rightarrow> 'w upload_state \<Rightarrow> 'w upload_state" where
  "process_docs env data [] s = s"
| "process_docs env data (doc # docs) s =
     process_docs env data docs
       (case data_files data (key doc) of
          None \<Rightarrow> s
        | Some files \<Rightarrow>
            if length files > 0 then upload_files env doc (data_companyName data) files s else s)"

datatype toast = Toast_error string string | Toast_success string string

text \<open>
  What \<open>onSubmit\<close> leaves behind: the final loop state, the row handed to \<open>insert\<close>
  (\<open>None\<close> when \<open>insert\<close> is not called), the notification shown, whether the form was
  reset, and the \<open>isUploading\<close> flag.
\<close>

record 'w submit_result =
  final :: "'w upload_state"
  inserted :: "new_row option"
  shown :: toast
  form_reset :: bool
  isUploading :: bool

definition onSubmit :: "'w browser \<Rightarrow> 'w \<Rightarrow> form_values \<Rightarrow> 'w submit_result" where
  "onSubmit env w data =
     (let s0 = \<lparr>world = w, documentPaths = init_paths documentTypes [],
                 anyUploadsSucceeded = False, calls = []\<rparr>;
          s = process_docs env data documentTypes s0
      in if anyUploadsSucceeded s then
           (let row = \<lparr>company_name = data_companyName data,
                        document_paths = documentPaths s,
                        uploaded_at = now_iso env (world s)\<rparr>;
                (res, w') = db_insert env (world s) row;
                s' = s\<lparr>world := w'\<rparr>
            in case res of
                 Throws \<Rightarrow>
                   \<lparr>final = s', inserted = Some row,
                    shown = Toast_error ''Something went wrong'' ''Please try again later.'',
                    form_reset = False, isUploading = False\<rparr>
               | Returns (Some e) \<Rightarrow>
                   \<lparr>final = s', inserted = Some row,
                    shown = Toast_error ''Database Error'' ''Could not save document information.'',
                    form_reset = False, isUploading = False\<rparr>
               | Returns None \<Rightarrow>
                   \<lparr>final = s', inserted = Some row,
                    shown = Toast_success ''Documents Uploaded'' ''Your documents have been processed.'',
                    form_reset = True, isUploading = False\<rparr>)
         else
           \<lparr>final = s, inserted = None,
            shown = Toast_error ''Upload Failed'' ''Could not upload any documents.'',
            form_reset = False, isUploading = False\<rparr>)"


section \<open>The submissions page: the documents of one submission\<close>

text \<open>
  \<open>submission.document_paths\<close> as it comes from the table: \<open>null\<close> (here \<open>None\<close>) or an
  object whose values the page tests for \<open>null\<close> before it reads them.
\<close>

type_synonym stored_paths = "js_string list option js_object option"

datatype js_error = TypeError

text \<open>\<open>Object.keys\<close>, \<open>Object.entries\<close> and \<open>Object.values\<close> throw on \<open>null\<close>.\<close>

definition Object_keys :: "'v js_object option \<Rightarrow> js_error + js_string list" where
  "Object_keys obj = (case obj of None \<Rightarrow> Inl TypeError | Some kvs \<Rightarrow> Inr (map fst kvs))"

definition Object_entries :: "'v js_object option \<Rightarrow> js_error + (js_string \<times> 'v) list" where
  "Object_entries obj = (case obj of None \<Rightarrow> Inl TypeError | Some kvs \<Rightarrow> Inr kvs)"

definition Object_values :: "'v js_object option \<Rightarrow> js_error + 'v list" where
  "Object_values obj = (case obj of None \<Rightarrow> Inl TypeError | Some kvs \<Rightarrow> Inr (map snd kvs))"

text \<open>The first error of a list of results, or all the values.\<close>

fun collect :: "('e + 'a) list \<Rightarrow> 'e + 'a list" where
  "collect [] = Inr []"
| "collect (Inl e # rs) = Inl e"
| "collect (Inr x # rs) = (case collect rs of Inl e \<Rightarrow> Inl e | Inr xs \<Rightarrow> Inr (x # xs))"

text \<open>The line terminators, which \<open>.\<close> does not match.\<close>

definition is_line_terminator :: "code_unit \<Rightarrow> bool" where
  "is_line_terminator c = (c = 0x0A \<or> c = 0x0D \<or> c = 0x2028 \<or> c = 0x2029)"

text \<open>
  \<open>formatDocType\<close>: a space before every capital of \<open>A-Z\<close>, then the first code unit
  through \<open>toUpperCase\<close> (the platform's, a parameter).
\<close>

definition formatDocType :: "(js_string \<Rightarrow> js_string) \<Rightarrow> js_string \<Rightarrow> js_string" where
  "formatDocType toUpperCase docType =
     (case concat (map (\<lambda>c. if is_upper c then [0x20, c] else [c]) docType) of
        [] \<Rightarrow> []
      | c # cs \<Rightarrow> if is_line_terminator c then c # cs else toUpperCase [c] @ cs)"

text \<open>
  \<open>getPublicUrl\<close>: \<open>data?.publicUrl || '#'\<close>, where \<open>publicUrl\<close> is what the storage
  client resolves the path to.
\<close>

definition getPublicUrl :: "(js_string \<Rightarrow> js_string option) \<Rightarrow> js_string \<Rightarrow> js_string" where
  "getPublicUrl publicUrl p =
     (case publicUrl p of None \<Rightarrow> str ''#'' | Some u \<Rightarrow> if u = [] then str ''#'' else u)"

text \<open>What is rendered: a link per path, a block per document type, or a paragraph.\<close>

record link =
  href :: js_string
  caption :: js_string

datatype element = Block js_string js_string "link list" | Note string

datatype documents_view = Paragraph string | Container "element list"

text \<open>The anchor of one path: \<open>fileName || path\<close> under the public URL.\<close>

definition render_link :: "(js_string \<Rightarrow> js_string option) \<Rightarrow> js_string \<Rightarrow> link" where
  "render_link publicUrl p =
     (let fileName = substring p (lastIndexOf p 0x2F + 1) (int (length p))
      in \<lparr>href = getPublicUrl publicUrl p, caption = (if fileName = [] then p else fileName)\<rparr>)"

text \<open>
  The callback of \<open>.map(([docType, paths]) => ...)\<close>: the block keyed by \<open>docType\<close> with
  its heading and links. \<open>paths.map\<close> throws when \<open>paths\<close> is \<open>null\<close>.
\<close>

definition render_block ::
  "(js_string \<Rightarrow> js_string option) \<Rightarrow> (js_string \<Rightarrow> js_string)
     \<Rightarrow> js_string \<times> js_string list option \<Rightarrow> js_error + element" where
  "render_block publicUrl toUpperCase entry =
     (case entry of
        (docType, None) \<Rightarrow> Inl TypeError
      | (docType, Some paths) \<Rightarrow>
          Inr (Block docType (formatDocType toUpperCase docType @ str '':'')
                 (map (render_link publicUrl) paths)))"

text \<open>\<open>paths && paths.length > 0\<close>\<close>

definition has_paths :: "js_string list option \<Rightarrow> bool" where
  "has_paths paths = (case paths of None \<Rightarrow> False | Some ps \<Rightarrow> length ps > 0)"

text \<open>
  The content under "Uploaded Documents:" for one submission, or the error thrown while
  rendering it; \<open>doc_paths\<close> is \<open>submission.document_paths\<close>.
\<close>

definition render_documents ::
  "(js_string \<Rightarrow> js_string option) \<Rightarrow> (js_string \<Rightarrow> js_string)
     \<Rightarrow> stored_paths \<Rightarrow> js_error + documents_view" where
  "render_documents publicUrl toUpperCase doc_paths =
     (if doc_paths = None then Inr (Paragraph ''No documents found for this submission.'')
      else
        (case Object_keys doc_paths of
           Inl e \<Rightarrow> Inl e
         | Inr ks \<Rightarrow>
             if length ks = 0 then Inr (Paragraph ''No documents found for this submission.'')
             else
               (case Object_entries doc_paths of
                  Inl e \<Rightarrow> Inl e
                | Inr entries \<Rightarrow>
                    (case collect (map (render_block publicUrl toUpperCase)
                                     (filter (\<lambda>(docType, paths). has_paths paths) entries)) of
                       Inl e \<Rightarrow> Inl e
                     | Inr blocks \<Rightarrow>
                         (case Object_values doc_paths of
                            Inl e \<Rightarrow> Inl e
                          | Inr vs \<Rightarrow>
                              Inr (Container
                                     (blocks @
                                      (if list_all (\<lambda>paths. \<not> has_paths paths) vs
                                       then [Note ''No documents found for this submission type.'']
                                       else []))))))))"


section \<open>Notions used to state the properties\<close>

text \<open>The files selected for a document type: none when the field is \<open>undefined\<close>.\<close>

definition selected :: "form_values \<Rightarrow> doc_type \<Rightarrow> js_file list" where
  "selected data doc = (case data_files data (key doc) of None \<Rightarrow> [] | Some files \<Rightarrow> files)"


text \<open>A form value that is absent or the empty string.\<close>

definition absent_or_empty :: "form_entry option \<Rightarrow> bool" where
  "absent_or_empty v \<longleftrightarrow> v = None \<or> v = Some (String_value [])"


text \<open>An \<open>uploadFile\<close> call succeeded when it came back with a truthy path.\<close>

definition succeeded :: "form_data \<times> js_string option \<Rightarrow> bool" where
  "succeeded c = truthy (snd c)"

text \<open>The paths of the successful calls for one folder, in call order.\<close>

definition collected :: "(form_data \<times> js_string option) list \<Rightarrow> js_string \<Rightarrow> js_string list" where
  "collected cs k =
     concat (map (\<lambda>c. case snd c of
                         None \<Rightarrow> []
                       | Some v \<Rightarrow> if folder (fst c) = Some k \<and> v \<noteq> [] then [v] else []) cs)"

text \<open>The entries of a stored object, none for \<open>null\<close>.\<close>

definition entries_of :: "stored_paths \<Rightarrow> (js_string \<times> js_string list option) list" where
  "entries_of doc_paths = (case doc_paths of None \<Rightarrow> [] | Some kvs \<Rightarrow> kvs)"

text \<open>The document types that have a block in the view, and the placeholder texts in it.\<close>

fun element_types :: "element list \<Rightarrow> js_string list" where
  "element_types [] = []"
| "element_types (Block docType heading links # es) = docType # element_types es"
| "element_types (Note t # es) = element_types es"

fun element_notes :: "element list \<Rightarrow> string list" where
  "element_notes [] = []"
| "element_notes (Block docType heading links # es) = element_notes es"
| "element_notes (Note t # es) = t # element_notes es"

fun block_types :: "documents_view \<Rightarrow> js_string list" where
  "block_types (Paragraph t) = []"
| "block_types (Container es) = element_types es"

fun placeholders :: "documents_view \<Rightarrow> string list" where
  "placeholders (Paragraph t) = [t]"
| "placeholders (Container es) = element_notes es"

text \<open>No two underscores side by side.\<close>

fun no_double_underscore :: "js_string \<Rightarrow> bool" where
  "no_double_underscore (a # b # cs) = (\<not> (a = 0x5F \<and> b = 0x5F) \<and> no_double_underscore (b # cs))"
| "no_double_underscore cs = True"

text \<open>
  The sanitizing of the base name in the words of the specification, to compare the
  route's with: the class \<open>[a-zA-Z0-9._-]\<close> as the list of its members; a unit of a
  string dropped where it is an underscore that follows an underscore; and the base name
  normalized, without the units from 0x0300 to 0x036F, with an underscore for every
  unit outside the class, its runs of underscores collapsed.
\<close>

definition spec_allowed :: "code_unit set" where
  "spec_allowed = set (str ''abcdefghijklmnopqrstuvwxyzABCDEFGHIJKLMNOPQRSTUVWXYZ0123456789._-'')"

definition spec_collapse_runs :: "js_string \<Rightarrow> js_string" where
  "spec_collapse_runs s =
     map snd (filter (\<lambda>(prev, c). \<not> (prev = Some 0x5F \<and> c = 0x5F)) (zip (None # map Some s) s))"

definition spec_safe_base :: "(js_string \<Rightarrow> js_string) \<Rightarrow> js_string \<Rightarrow> js_string" where
  "spec_safe_base nfd base =
     spec_collapse_runs
       (map (\<lambda>c. if c \<in> spec_allowed then c else 0x5F)
          (filter (\<lambda>c. c \<notin> {0x300..0x36F}) (nfd base)))"

text \<open>The number a string of decimal digits stands for.\<close>

definition digits_value :: "js_string \<Rightarrow> nat" where
  "digits_value s = foldl (\<lambda>acc c. 10 * acc + unat (c - 0x30)) 0 s"

text \<open>The block rendered for an entry that has paths.\<close>

definition block_of ::
  "(js_string \<Rightarrow> js_string option) \<Rightarrow> (js_string \<Rightarrow> js_string)
     \<Rightarrow> js_string \<times> js_string list option \<Rightarrow> element" where
  "block_of publicUrl toUpperCase entry =
     Block (fst entry) (formatDocType toUpperCase (fst entry) @ str '':'')
       (map (render_link publicUrl) (case snd entry of None \<Rightarrow> [] | Some ps \<Rightarrow> ps))"

text \<open>The state in which the loops of \<open>onSubmit\<close> start.\<close>

definition start :: "'w \<Rightarrow> 'w upload_state" where
  "start w = \<lparr>world = w, documentPaths = init_paths documentTypes [],
               anyUploadsSucceeded = False, calls = []\<rparr>"

text \<open>
  The loop invariant: the object has the keys \<open>ks\<close>, each with the paths of the
  successful calls for it so far, and the flag tells whether any call succeeded.
\<close>

definition tracked :: "js_string list \<Rightarrow> 'w upload_state \<Rightarrow> bool" where
  "tracked ks s \<longleftrightarrow>
     map fst (documentPaths s) = ks \<and>
     (\<forall>k \<in> set ks. obj_get (documentPaths s) k = Some (collected (calls s) k)) \<and>
     anyUploadsSucceeded s = list_ex succeeded (calls s)"


section \<open>Example inputs\<close>

text \<open>
  NFD normalization on a string that is decomposed already, as every string of ASCII
  code units is, and every such string with combining marks after its letters: the
  string itself.
\<close>

definition nfd_decomposed :: "js_string \<Rightarrow> js_string" where
  "nfd_decomposed s = s"

text \<open>The name \<open>Resume v2.pdf\<close> with a combining acute accent (code unit 0x0301) after each \<open>e\<close>.\<close>

definition resume_name :: js_string where
  "resume_name = str ''Re'' @ [0x301] @ str ''sume'' @ [0x301] @ str '' v2.pdf''"

text \<open>
  NFD normalization on a string whose only unit with a decomposition is the letter e
  with acute accent (0x00E9): that letter becomes \<open>e\<close> and the combining accent. The
  name \<open>Resume v2.pdf\<close> with that letter for each \<open>e\<close>.
\<close>

definition nfd_e_acute :: "js_string \<Rightarrow> js_string" where
  "nfd_e_acute s = concat (map (\<lambda>c. if c = 0xE9 then [0x65, 0x301] else [c]) s)"

definition resume_precomposed :: js_string where
  "resume_precomposed = str ''R'' @ [0xE9] @ str ''sum'' @ [0xE9] @ str '' v2.pdf''"

definition invoice_file :: js_file where
  "invoice_file = \<lparr>name = str ''Invoice #1.pdf'', content_type = str ''application/pdf'', content = [0x25, 0x50]\<rparr>"


text \<open>A storage client that stores every object under the key it is given.\<close>

definition upload_stores :: "js_string \<Rightarrow> 8 word list \<Rightarrow> js_string \<Rightarrow> upload_result attempt" where
  "upload_stores k b t = Returns \<lparr>data_path = Some k, upload_error = None\<rparr>"

text \<open>
  A browser whose world counts the requests sent: \<open>fetch\<close> reaches the route above with
  \<open>upload_stores\<close>, except that the request numbered \<open>0\<close> fails with a network error.
\<close>

definition flaky_fetch :: "nat \<Rightarrow> form_data \<Rightarrow> http_response attempt \<times> nat" where
  "flaky_fetch w formData =
     (if w = 0 then (Throws, Suc w)
      else (Returns (POST nfd_decomposed upload_stores 1700000000000 (Returns (multipart formData))),
            Suc w))"

definition flaky_browser :: "nat browser" where
  "flaky_browser =
     \<lparr>fetch = flaky_fetch,
      db_insert = (\<lambda>w row. (Returns None, w)),
      now_iso = (\<lambda>w. str ''2023-11-14T22:13:20.000Z'')\<rparr>"


definition one_invoice :: form_values where
  "one_invoice =
     \<lparr>data_companyName = str ''Acme Co.'',
      data_files = [str ''commercialInvoice'' \<mapsto> [invoice_file]]\<rparr>"


definition invoice_doc :: doc_type where
  "invoice_doc = \<lparr>key = str ''commercialInvoice'', label = str ''Commercial Invoice''\<rparr>"

definition invoice_path :: js_string where
  "invoice_path = str ''commercialInvoice/acme_co__Invoice_1_1700000000000.pdf''"

definition invoice_form :: multipart_form where
  "invoice_form =
     \<lparr>get_file = Some (File_value invoice_file),
      get_folder = Some (String_value (str ''commercialInvoice'')),
      get_companyName = Some (String_value (str ''Acme Co.''))\<rparr>"

text \<open>The same form with the folder field present and empty.\<close>

definition empty_folder_form :: multipart_form where
  "empty_folder_form = invoice_form\<lparr>get_folder := Some (String_value [])\<rparr>"

text \<open>The same form with the file field sent as text: empty, and \<open>x\<close>.\<close>

definition empty_file_form :: multipart_form where
  "empty_file_form = invoice_form\<lparr>get_file := Some (String_value [])\<rparr>"

definition text_file_form :: multipart_form where
  "text_file_form = invoice_form\<lparr>get_file := Some (String_value (str ''x''))\<rparr>"

text \<open>The same form with the company name sent as a file.\<close>

definition company_file_form :: multipart_form where
  "company_file_form = invoice_form\<lparr>get_companyName := Some (File_value invoice_file)\<rparr>"

text \<open>Storage clients that report an error, throw, and resolve to neither data nor error.\<close>

definition upload_rejects :: "js_string \<Rightarrow> 8 word list \<Rightarrow> js_string \<Rightarrow> upload_result attempt" where
  "upload_rejects k b t =
     Returns \<lparr>data_path = None, upload_error = Some (str ''The resource already exists'')\<rparr>"

definition upload_throws :: "js_string \<Rightarrow> 8 word list \<Rightarrow> js_string \<Rightarrow> upload_result attempt" where
  "upload_throws k b t = Throws"

definition upload_nothing :: "js_string \<Rightarrow> 8 word list \<Rightarrow> js_string \<Rightarrow> upload_result attempt" where
  "upload_nothing k b t = Returns \<lparr>data_path = None, upload_error = None\<rparr>"

text \<open>A public URL for every path, and \<open>toUpperCase\<close> on ASCII strings.\<close>

definition public_url :: "js_string \<Rightarrow> js_string option" where
  "public_url p = Some (str ''https://storage.test/'' @ p)"

definition upper_ascii :: "js_string \<Rightarrow> js_string" where
  "upper_ascii s = map (\<lambda>c. if is_lower c then c - 0x20 else c) s"

definition empty_lists :: stored_paths where
  "empty_lists = Some [(str ''tk10'', Some []), (str ''msds'', None)]"

definition one_list :: stored_paths where
  "one_list = Some [(str ''tk10'', Some []), (str ''msds'', Some [str ''msds/acme_a_1.pdf''])]"


section \<open>Properties of the file name sanitizing\<close>

lemmas sanitizer_defs =
  storagePath_def storageFileName_def safeBaseName_def baseName_def substring_def
  clamp_index_def str_def safeCompanyName_def fileExtension_def pop_def replace_each_def
  toLowerCase_def toLowerCase_unit_def is_valid_def is_alnum_def is_upper_def is_lower_def
  is_digit_def is_diacritic_def Number_toString_def digits.simps

subsection \<open>The base name\<close>

lemma safe_units_replace:
  "list_all (\<lambda>c. is_alnum c \<or> c = 0x5F) (replace_each (\<lambda>c. \<not> is_alnum c) (str ''_'') s)"
  by (induction s) (simp_all add: replace_each_def str_def)

lemma valid_replace_each:
  "list_all is_valid (replace_each (\<lambda>c. \<not> is_valid c) (str ''_'') s)"
  by (induction s) (simp_all add: replace_each_def str_def is_valid_def)

lemma set_collapse_underscores: "set (collapse_underscores s) \<subseteq> set s"
  by (induction s rule: collapse_underscores.induct) auto

lemma list_all_collapse_underscores:
  "list_all P s \<Longrightarrow> list_all P (collapse_underscores s)"
  using set_collapse_underscores [of s] by (auto simp: list_all_iff)

lemma hd_collapse_underscores:
  "collapse_underscores (a # cs) = a # tl (collapse_underscores (a # cs))"
  by (induction cs arbitrary: a) auto

lemma collapse_no_double: "no_double_underscore (collapse_underscores s)"
proof (induction s rule: collapse_underscores.induct)
  case (1 a b cs)
  obtain r where r: "collapse_underscores (b # cs) = b # r"
    using hd_collapse_underscores [of b cs] by blast
  with 1 show ?case by auto
qed simp_all

subsection \<open>The extension\<close>

lemma length_split: "length (split s sep) = Suc (length (filter (\<lambda>c. c = sep) s))"
  by (induction s) (auto split: list.splits)

lemma split_nonempty: "split s sep \<noteq> []"
  using length_split [of s sep] by auto

lemma split_no_sep: "sep \<notin> set s \<Longrightarrow> split s sep = [s]"
  by (induction s) auto

lemma last_split_append: "last (split (a @ sep # e) sep) = last (split e sep)"
proof (induction a)
  case Nil
  then show ?case by (simp add: split_nonempty)
next
  case (Cons x a)
  have "length (split (a @ sep # e) sep) \<ge> 2"
    by (simp add: length_split)
  then obtain p q ps where "split (a @ sep # e) sep = p # q # ps"
    by (cases "split (a @ sep # e) sep"; cases "tl (split (a @ sep # e) sep)") auto
  with Cons show ?case by auto
qed

text \<open>With a full stop in the name, the extension is what follows the last one.\<close>

lemma fileExtension_dot: "0x2E \<notin> set e \<Longrightarrow> fileExtension (a @ 0x2E # e) = e"
  by (simp add: fileExtension_def pop_def last_split_append split_no_sep split_nonempty)

text \<open>Without one, the extension is the whole name and the base name is empty.\<close>

lemma fileExtension_no_dot: "0x2E \<notin> set s \<Longrightarrow> fileExtension s = s"
  by (simp add: fileExtension_def pop_def split_no_sep)

lemma lastIndexOf_none: "c \<notin> set s \<Longrightarrow> lastIndexOf s c = -1"
  by (induction s) auto

lemma lastIndexOf_last: "c \<notin> set e \<Longrightarrow> lastIndexOf (a @ c # e) c = int (length a)"
  by (induction a) (auto simp: lastIndexOf_none Let_def)

lemma baseName_no_dot: "0x2E \<notin> set s \<Longrightarrow> baseName s = []"
  by (simp add: baseName_def lastIndexOf_none substring_def clamp_index_def)

lemma baseName_dot: "0x2E \<notin> set e \<Longrightarrow> a \<noteq> [] \<Longrightarrow> baseName (a @ 0x2E # e) = a"
  by (simp add: baseName_def lastIndexOf_last substring_def clamp_index_def)

text \<open>
  Claim C3: the extension put into the storage key is the part of the file name after
  its last full stop, and empty when the name has no full stop. The second half fails:
  for the name \<open>README\<close> the extension is \<open>README\<close>, the base name is empty, and the
  key ends in \<open>.README\<close>.
\<close>

theorem fileExtension_of_README:
  "fileExtension (str ''README'') = str ''README'' \<and>
   baseName (str ''README'') = [] \<and>
   storageFileName nfd_decomposed (str ''Acme Co.'') (str ''README'') 1700000000000
     = str ''acme_co___1700000000000.README''"
  by (simp add: sanitizer_defs nfd_decomposed_def)

subsection \<open>The base name against the specification\<close>

lemma lower_listed: "is_lower c \<longleftrightarrow> c \<in> set (str ''abcdefghijklmnopqrstuvwxyz'')"
  unfolding is_lower_def str_def
  by (simp add: word_unat_eq_iff word_le_nat_alt) arith

lemma upper_listed: "is_upper c \<longleftrightarrow> c \<in> set (str ''ABCDEFGHIJKLMNOPQRSTUVWXYZ'')"
  unfolding is_upper_def str_def
  by (simp add: word_unat_eq_iff word_le_nat_alt) arith

lemma digit_listed: "is_digit c \<longleftrightarrow> c \<in> set (str ''0123456789'')"
  unfolding is_digit_def str_def
  by (simp add: word_unat_eq_iff word_le_nat_alt) arith

lemma is_valid_spec_allowed: "is_valid c \<longleftrightarrow> c \<in> spec_allowed"
proof -
  have "spec_allowed = set (str ''abcdefghijklmnopqrstuvwxyz'') \<union> set (str ''ABCDEFGHIJKLMNOPQRSTUVWXYZ'')
          \<union> set (str ''0123456789'') \<union> {0x2E, 0x5F, 0x2D}"
    by (simp add: spec_allowed_def str_def) blast
  then show ?thesis
    by (auto simp: is_valid_def is_alnum_def lower_listed upper_listed digit_listed)
qed

lemma replace_invalid_spec:
  "replace_each (\<lambda>c. \<not> is_valid c) (str ''_'') s = map (\<lambda>c. if c \<in> spec_allowed then c else 0x5F) s"
  by (induction s) (simp_all add: replace_each_def str_def is_valid_spec_allowed)

lemma remove_diacritics_spec:
  "replace_each is_diacritic [] s = filter (\<lambda>c. c \<notin> {0x300..0x36F}) s"
  by (induction s) (simp_all add: replace_each_def is_diacritic_def)

lemma collapse_cons:
  "collapse_underscores (a # s) =
     a # map snd (filter (\<lambda>(prev, c). \<not> (prev = Some 0x5F \<and> c = 0x5F)) (zip (Some a # map Some s) s))"
  by (induction s arbitrary: a) auto

lemma collapse_eq_spec: "collapse_underscores s = spec_collapse_runs s"
  by (cases s) (simp_all add: spec_collapse_runs_def collapse_cons)

lemma safeBaseName_eq_spec:
  "safeBaseName nfd originalName = spec_safe_base nfd (baseName originalName)"
  by (simp only: safeBaseName_def spec_safe_base_def collapse_eq_spec replace_invalid_spec
        remove_diacritics_spec)

text \<open>
  Claim C6: for every file name, accented or not, the base-name portion of the storage
  key holds only code units of \<open>[a-zA-Z0-9._-]\<close>, because it is made as the
  specification says: the base name is normalized, the combining diacritics are removed,
  every other unit outside the class becomes an underscore, and every run of underscores
  becomes one. The base name is the one the route computes; for a name with a full stop
  after its first unit it is the part before the last full stop.
\<close>

theorem safeBaseName_valid_units:
  "list_all is_valid (safeBaseName nfd originalName) \<and>
   no_double_underscore (safeBaseName nfd originalName) \<and>
   set (safeBaseName nfd originalName) \<subseteq> spec_allowed \<and>
   safeBaseName nfd originalName = spec_safe_base nfd (baseName originalName) \<and>
   (\<forall>a e. originalName = a @ 0x2E # e \<and> a \<noteq> [] \<and> 0x2E \<notin> set e \<longrightarrow>
      safeBaseName nfd originalName = spec_safe_base nfd a)"
proof (intro conjI allI impI)
  show v: "list_all is_valid (safeBaseName nfd originalName)"
    unfolding safeBaseName_def
    by (simp add: list_all_collapse_underscores valid_replace_each)
  show "no_double_underscore (safeBaseName nfd originalName)"
    unfolding safeBaseName_def by (rule collapse_no_double)
  from v show "set (safeBaseName nfd originalName) \<subseteq> spec_allowed"
    by (auto simp: list_all_iff is_valid_spec_allowed)
  show "safeBaseName nfd originalName = spec_safe_base nfd (baseName originalName)"
    by (rule safeBaseName_eq_spec)
next
  fix a e
  assume "originalName = a @ 0x2E # e \<and> a \<noteq> [] \<and> 0x2E \<notin> set e"
  then show "safeBaseName nfd originalName = spec_safe_base nfd a"
    by (simp add: safeBaseName_eq_spec baseName_dot)
qed

theorem safeBaseName_valid_units_witness:
  "resume_precomposed = (str ''R'' @ [0xE9] @ str ''sum'' @ [0xE9] @ str '' v2'') @ 0x2E # str ''pdf'' \<and>
   str ''R'' @ [0xE9] @ str ''sum'' @ [0xE9] @ str '' v2'' \<noteq> [] \<and> 0x2E \<notin> set (str ''pdf'') \<and>
   safeBaseName nfd_e_acute resume_precomposed
     = spec_safe_base nfd_e_acute (str ''R'' @ [0xE9] @ str ''sum'' @ [0xE9] @ str '' v2'') \<and>
   safeBaseName nfd_e_acute resume_precomposed = str ''Resume_v2'' \<and>
   list_all is_valid (safeBaseName nfd_e_acute resume_precomposed) \<and>
   no_double_underscore (safeBaseName nfd_e_acute resume_precomposed) \<and>
   safeBaseName nfd_decomposed resume_name = str ''Resume_v2''"
proof -
  have h: "resume_precomposed = (str ''R'' @ [0xE9] @ str ''sum'' @ [0xE9] @ str '' v2'') @ 0x2E # str ''pdf'' \<and>
     str ''R'' @ [0xE9] @ str ''sum'' @ [0xE9] @ str '' v2'' \<noteq> [] \<and> 0x2E \<notin> set (str ''pdf'')"
    by (simp add: resume_precomposed_def str_def)
  have e: "spec_safe_base nfd_e_acute (str ''R'' @ [0xE9] @ str ''sum'' @ [0xE9] @ str '' v2'')
             = str ''Resume_v2''"
    by (simp add: spec_safe_base_def spec_collapse_runs_def spec_allowed_def nfd_e_acute_def str_def)
  have d: "spec_safe_base nfd_decomposed (baseName resume_name) = str ''Resume_v2''"
    by (simp add: spec_safe_base_def spec_collapse_runs_def spec_allowed_def nfd_decomposed_def
          resume_name_def baseName_def substring_def clamp_index_def str_def)
  from safeBaseName_valid_units [of nfd_e_acute resume_precomposed] h
  have "safeBaseName nfd_e_acute resume_precomposed
          = spec_safe_base nfd_e_acute (str ''R'' @ [0xE9] @ str ''sum'' @ [0xE9] @ str '' v2'')"
    and "list_all is_valid (safeBaseName nfd_e_acute resume_precomposed)"
    and "no_double_underscore (safeBaseName nfd_e_acute resume_precomposed)"
    by blast+
  moreover from safeBaseName_valid_units [of nfd_decomposed resume_name]
  have "safeBaseName nfd_decomposed resume_name = spec_safe_base nfd_decomposed (baseName resume_name)"
    by blast
  ultimately show ?thesis using h e d by simp
qed


subsection \<open>The storage key\<close>

text \<open>
  Claim C4: for the company name \<open>Acme Co.\<close>, the file name \<open>Invoice #1.pdf\<close>, the
  folder \<open>commercialInvoice\<close> and the timestamp 1700000000000, the storage path is
  \<open>commercialInvoice/acme_co__Invoice_1_1700000000000.pdf\<close>, the normalization leaving
  the ASCII base name as it is.
\<close>

theorem storagePath_invoice:
  "nfd (str ''Invoice #1'') = str ''Invoice #1'' \<Longrightarrow>
   storagePath nfd (str ''commercialInvoice'') (str ''Acme Co.'') (str ''Invoice #1.pdf'')
     1700000000000
     = str ''commercialInvoice/acme_co__Invoice_1_1700000000000.pdf''"
  by (simp add: sanitizer_defs)

theorem storagePath_invoice_witness:
  "nfd_decomposed (str ''Invoice #1'') = str ''Invoice #1'' \<and>
   storagePath nfd_decomposed (str ''commercialInvoice'') (str ''Acme Co.'')
     (str ''Invoice #1.pdf'') 1700000000000
     = str ''commercialInvoice/acme_co__Invoice_1_1700000000000.pdf''"
proof -
  have h: "nfd_decomposed (str ''Invoice #1'') = str ''Invoice #1''"
    by (simp add: nfd_decomposed_def)
  from h storagePath_invoice [of nfd_decomposed, OF h] show ?thesis by (rule conjI)
qed

subsection \<open>Timestamps\<close>

lemma digits_value_digits: "digits_value (digits n) = n"
proof (induction n rule: digits.induct)
  case (1 n)
  show ?case
  proof (cases "n < 10")
    case True
    then show ?thesis by (subst digits.simps) (simp add: digits_value_def unat_of_nat)
  next
    case False
    have "unat ((0x30 :: 16 word) + of_nat (n mod 10) - 0x30) = n mod 10"
      by (simp add: unat_of_nat)
    with False 1 show ?thesis
      by (subst digits.simps) (simp add: digits_value_def)
  qed
qed

lemma digits_inj: "digits n = digits m \<Longrightarrow> n = m"
  by (metis digits_value_digits)

lemma digits_is_digit: "list_all is_digit (digits n)"
proof (induction n rule: digits.induct)
  case (1 n)
  have d: "is_digit (0x30 + of_nat d)" if "d < 10" for d :: nat
  proof -
    from that have "d \<in> {0,1,2,3,4,5,6,7,8,9}" by auto
    then show ?thesis by (auto simp: is_digit_def)
  qed
  show ?case
  proof (cases "n < 10")
    case True
    then show ?thesis by (subst digits.simps) (simp add: d)
  next
    case False
    with 1 show ?thesis by (subst digits.simps) (simp add: d)
  qed
qed

lemma Number_toString_inj:
  assumes eq: "Number_toString a = Number_toString b"
  shows "a = b"
proof -
  have nd: "\<not> is_digit 0x2D" by (simp add: is_digit_def)
  have ne: "digits n \<noteq> 0x2D # xs" for n xs
    using digits_is_digit [of n] nd by (cases "digits n") auto
  show ?thesis
  proof (cases "a < 0"; cases "b < 0")
    assume "a < 0" "b < 0"
    with eq have "nat (- a) = nat (- b)" by (auto simp: Number_toString_def dest: digits_inj)
    with \<open>a < 0\<close> \<open>b < 0\<close> show ?thesis by simp
  next
    assume "a < 0" "\<not> b < 0"
    with eq have "digits (nat b) = 0x2D # digits (nat (- a))" by (simp add: Number_toString_def)
    with ne show ?thesis by blast
  next
    assume "\<not> a < 0" "b < 0"
    with eq have "digits (nat a) = 0x2D # digits (nat (- b))" by (simp add: Number_toString_def)
    with ne show ?thesis by blast
  next
    assume "\<not> a < 0" "\<not> b < 0"
    with eq have "nat a = nat b" by (auto simp: Number_toString_def dest: digits_inj)
    with \<open>\<not> a < 0\<close> \<open>\<not> b < 0\<close> show ?thesis by simp
  qed
qed

text \<open>
  Claim C7: two uploads with the same file name and company name and different
  millisecond timestamps get different storage keys.
\<close>

theorem storageFileName_timestamp_injective:
  "t1 \<noteq> t2 \<Longrightarrow>
   storageFileName nfd company originalName t1
     \<noteq> storageFileName nfd company originalName t2"
  by (auto simp: storageFileName_def dest: Number_toString_inj)

theorem storageFileName_timestamp_injective_witness:
  "(1700000000000 :: int) \<noteq> 1700000000001 \<and>
   storageFileName nfd_decomposed (str ''Acme Co.'') (str ''Invoice #1.pdf'') 1700000000000
     \<noteq> storageFileName nfd_decomposed (str ''Acme Co.'') (str ''Invoice #1.pdf'') 1700000000001"
proof -
  have h: "(1700000000000 :: int) \<noteq> 1700000000001" by simp
  from h storageFileName_timestamp_injective [OF h] show ?thesis by (rule conjI)
qed


section \<open>Properties of the submission form\<close>


subsection \<open>Objects and the twelve keys\<close>

lemma obj_get_obj_set:
  "obj_get (obj_set obj k v) k' = (if k' = k then Some v else obj_get obj k')"
  by (induction obj) (auto simp: obj_get_def)

lemma keys_obj_set:
  "obj_get obj k = Some x \<Longrightarrow> map fst (obj_set obj k v) = map fst obj"
  by (induction obj) (auto simp: obj_get_def split: if_splits)

lemma keys_distinct: "distinct (map key documentTypes)"
  by (simp add: documentTypes_def str_def)

lemma length_documentTypes: "length documentTypes = 12"
  by (simp add: documentTypes_def)

lemma init_paths_eq: "init_paths documentTypes [] = map (\<lambda>d. (key d, [])) documentTypes"
  by (simp add: documentTypes_def str_def)

subsection \<open>The loop invariant\<close>

lemma collected_snoc:
  "collected (cs @ [c]) k = collected cs k @ (case snd c of None \<Rightarrow> [] | Some v \<Rightarrow> if folder (fst c) = Some k \<and> v \<noteq> [] then [v] else [])"
  by (simp add: collected_def)

lemma tracked_upload_one:
  assumes "tracked ks s" "key doc \<in> set ks"
  shows "tracked ks (upload_one env doc cn f s)"
proof -
  obtain p w' where u: "uploadFile env (world s) f (key doc) cn = (p, w')"
    by (cases "uploadFile env (world s) f (key doc) cn")
  from assms have g: "obj_get (documentPaths s) (key doc) = Some (collected (calls s) (key doc))"
    by (simp add: tracked_def)
  show ?thesis
    using assms(1) u g
    by (cases p)
       (auto simp: tracked_def upload_one_def Let_def collected_snoc succeeded_def truthy_def
          obj_get_obj_set keys_obj_set [OF g])
qed

lemma tracked_upload_files:
  "tracked ks s \<Longrightarrow> key doc \<in> set ks \<Longrightarrow> tracked ks (upload_files env doc cn fs s)"
  by (induction fs arbitrary: s) (simp_all add: tracked_upload_one)

lemma tracked_process_docs:
  "tracked ks s \<Longrightarrow> set (map key docs) \<subseteq> set ks \<Longrightarrow> tracked ks (process_docs env data docs s)"
  by (induction docs arbitrary: s) (auto simp: tracked_upload_files split: option.splits)

lemma map_of_by_key:
  "d \<in> set ds \<Longrightarrow> map_of (map (\<lambda>d. (key d, g (key d))) ds) (key d) = Some (g (key d))"
  by (induction ds) auto

lemma map_of_empty_lists:
  "d \<in> set ds \<Longrightarrow> map_of (map (\<lambda>d. (key d, [])) ds) (key d) = Some []"
  using map_of_by_key [of d ds "\<lambda>k. []"] by simp

lemma tracked_start: "tracked (map key documentTypes) (start w)"
  unfolding tracked_def start_def init_paths_eq
  by (simp add: obj_get_def collected_def comp_def map_of_empty_lists)


subsection \<open>The trace of calls\<close>




subsection \<open>What \<open>onSubmit\<close> leaves behind\<close>

lemma onSubmit_final:
  "calls (final (onSubmit env w data)) = calls (process_docs env data documentTypes (start w))"
  "documentPaths (final (onSubmit env w data)) = documentPaths (process_docs env data documentTypes (start w))"
  by (simp_all add: onSubmit_def start_def Let_def split: prod.splits attempt.splits option.splits)

lemma onSubmit_inserted:
  "inserted (onSubmit env w data) =
     (let s = process_docs env data documentTypes (start w)
      in if anyUploadsSucceeded s
         then Some \<lparr>company_name = data_companyName data, document_paths = documentPaths s,
                     uploaded_at = now_iso env (world s)\<rparr>
         else None)"
  by (simp add: onSubmit_def start_def Let_def split: prod.splits attempt.splits option.splits)


lemma tracked_final: "tracked (map key documentTypes) (process_docs env data documentTypes (start w))"
  by (rule tracked_process_docs [OF tracked_start]) simp




subsection \<open>The row that is written\<close>

lemma object_by_lookup:
  fixes obj :: "'v js_object"
  assumes "distinct (map fst obj)" "\<forall>k \<in> set (map fst obj). obj_get obj k = Some (g k)"
  shows "obj = map (\<lambda>k. (k, g k)) (map fst obj)"
proof -
  have "kv = (fst kv, g (fst kv))" if "kv \<in> set obj" for kv
  proof -
    from that assms(1) have "map_of obj (fst kv) = Some (snd kv)" by simp
    moreover from that assms(2) have "map_of obj (fst kv) = Some (g (fst kv))"
      by (simp add: obj_get_def)
    ultimately show ?thesis by (simp add: prod_eq_iff)
  qed
  then have "map (\<lambda>kv. (fst kv, g (fst kv))) obj = obj"
    by (intro map_idI) simp
  then show ?thesis by (simp add: comp_def)
qed

lemma tracked_paths:
  assumes "tracked ks s" "distinct ks"
  shows "documentPaths s = map (\<lambda>k. (k, collected (calls s) k)) ks"
proof -
  from assms have k: "map fst (documentPaths s) = ks"
    and d: "distinct (map fst (documentPaths s))"
    and l: "\<forall>k \<in> set (map fst (documentPaths s)).
              obj_get (documentPaths s) k = Some (collected (calls s) k)"
    by (simp_all add: tracked_def)
  have "documentPaths s =
        map (\<lambda>k. (k, collected (calls s) k)) (map fst (documentPaths s))"
    by (rule object_by_lookup [OF d l])
  then show ?thesis by (simp only: k)
qed

lemma inserted_paths:
  "inserted (onSubmit env w data) = Some row \<Longrightarrow>
   document_paths row =
     map (\<lambda>doc. (key doc, collected (calls (final (onSubmit env w data))) (key doc))) documentTypes"
  using tracked_paths [OF tracked_final [of env data w] keys_distinct]
  by (auto simp: onSubmit_inserted onSubmit_final Let_def comp_def split: if_splits)


text \<open>A submission with files for one document type only.\<close>

lemma process_docs_append:
  "process_docs env data (xs @ ys) s = process_docs env data ys (process_docs env data xs s)"
  by (induction xs arbitrary: s) simp_all

lemma process_docs_no_files:
  "\<forall>d \<in> set docs. selected data d = [] \<Longrightarrow> process_docs env data docs s = s"
  by (induction docs arbitrary: s) (auto simp: selected_def split: option.splits)

lemma process_docs_single:
  assumes "distinct (map key docs)" "doc \<in> set docs" "selected data doc = [f]"
    and "\<forall>d \<in> set docs. key d \<noteq> key doc \<longrightarrow> selected data d = []"
  shows "process_docs env data docs s = upload_one env doc (data_companyName data) f s"
proof -
  from assms(2) obtain pre post where sp: "docs = pre @ doc # post"
    by (auto dest: split_list)
  with assms(1) have "\<forall>d \<in> set pre \<union> set post. key d \<noteq> key doc"
    by (force simp: image_iff)
  with assms(4) sp have e: "\<forall>d \<in> set pre. selected data d = []" "\<forall>d \<in> set post. selected data d = []"
    by auto
  from assms(3) have "data_files data (key doc) = Some [f]"
    by (auto simp: selected_def split: option.splits)
  then show ?thesis
    by (simp add: sp process_docs_append process_docs_no_files [OF e(1)] process_docs_no_files [OF e(2)])
qed

lemma count_key:
  "distinct (map key ds) \<Longrightarrow> doc \<in> set ds \<Longrightarrow> length (filter (\<lambda>d. key d = key doc) ds) = 1"
proof (induction ds)
  case Nil
  then show ?case by simp
next
  case (Cons a ds)
  show ?case
  proof (cases "key a = key doc")
    case True
    with Cons.prems have "\<forall>d \<in> set ds. key d \<noteq> key doc" by (auto simp: image_iff)
    then have "filter (\<lambda>d. key d = key doc) ds = []" by (simp add: filter_empty_conv)
    with True show ?thesis by simp
  next
    case False
    with Cons show ?thesis by auto
  qed
qed

lemma count_other_keys:
  assumes "doc \<in> set documentTypes"
  shows "length (filter (\<lambda>d. key d \<noteq> key doc) documentTypes) = 11"
proof -
  have "length (filter (\<lambda>d. key d = key doc) documentTypes) +
        length (filter (\<lambda>d. \<not> key d = key doc) documentTypes) = length documentTypes"
    by (rule sum_length_filter_compl)
  with count_key [OF keys_distinct assms] show ?thesis
    by (simp add: length_documentTypes)
qed

lemma single_success:
  assumes "doc \<in> set documentTypes" "selected data doc = [f]"
    and "\<forall>d \<in> set documentTypes. key d \<noteq> key doc \<longrightarrow> selected data d = []"
    and "uploadFile env w f (key doc) (data_companyName data) = (Some p, w')" "p \<noteq> []"
  shows "inserted (onSubmit env w data) =
           Some \<lparr>company_name = data_companyName data,
                  document_paths = map (\<lambda>d. (key d, if key d = key doc then [p] else [])) documentTypes,
                  uploaded_at = now_iso env w'\<rparr>"
proof -
  let ?s = "process_docs env data documentTypes (start w)"
  have s: "?s = upload_one env doc (data_companyName data) f (start w)"
    by (rule process_docs_single [OF keys_distinct assms(1-3)])
  have g: "obj_get (documentPaths (start w)) (key doc) = Some []"
    using assms(1) by (simp add: start_def init_paths_eq obj_get_def map_of_empty_lists)
  have c: "calls ?s = [(\<lparr>file_entry = Some f, folder = Some (key doc),
                         companyName = Some (data_companyName data)\<rparr>, Some p)]"
    and a: "anyUploadsSucceeded ?s" and w: "world ?s = w'"
    using assms(4,5) g unfolding s by (simp_all add: upload_one_def start_def)
  have "documentPaths ?s = map (\<lambda>k. (k, collected (calls ?s) k)) (map key documentTypes)"
    by (rule tracked_paths [OF tracked_final keys_distinct])
  then have "documentPaths ?s = map (\<lambda>d. (key d, if key d = key doc then [p] else [])) documentTypes"
    using assms(5) by (simp add: c collected_def comp_def)
  then show ?thesis using a w by (simp add: onSubmit_inserted Let_def)
qed

subsection \<open>Runs on the example inputs\<close>




subsection \<open>One file, one path\<close>

lemma count_empty_lists:
  assumes "doc \<in> set documentTypes" "p \<noteq> []"
  shows "length (filter (\<lambda>(k, ps). ps = [])
           (map (\<lambda>d. (key d, if key d = key doc then [p] else [])) documentTypes)) = 11"
    and "length (filter (\<lambda>(k, ps). length ps = 1)
           (map (\<lambda>d. (key d, if key d = key doc then [p :: js_string] else [])) documentTypes)) = 1"
proof -
  have "filter ((\<lambda>(k, ps). ps = []) \<circ> (\<lambda>d. (key d, if key d = key doc then [p] else []))) documentTypes
        = filter (\<lambda>d. key d \<noteq> key doc) documentTypes"
    by (rule filter_cong) auto
  then show "length (filter (\<lambda>(k, ps). ps = [])
           (map (\<lambda>d. (key d, if key d = key doc then [p] else [])) documentTypes)) = 11"
    by (simp add: filter_map count_other_keys [OF assms(1)])
  have "filter ((\<lambda>(k, ps). length ps = 1) \<circ> (\<lambda>d. (key d, if key d = key doc then [p] else []))) documentTypes
        = filter (\<lambda>d. key d = key doc) documentTypes"
    by (rule filter_cong) auto
  then show "length (filter (\<lambda>(k, ps). length ps = 1)
           (map (\<lambda>d. (key d, if key d = key doc then [p] else [])) documentTypes)) = 1"
    by (simp add: filter_map count_key [OF keys_distinct assms(1)])
qed

text \<open>
  Claim C2: every row handed to the database insert has exactly the twelve document
  type keys, each with the paths uploaded for it (the empty list when there are none);
  when one document type has one file, which uploads, and all others have none, the row
  has eleven empty lists and one list of one path.
\<close>

theorem onSubmit_row_has_twelve_keys:
  "(\<forall>row. inserted (onSubmit env w data) = Some row \<longrightarrow>
      map fst (document_paths row) = map key documentTypes \<and>
      length (document_paths row) = 12 \<and>
      distinct (map fst (document_paths row)) \<and>
      (\<forall>doc \<in> set documentTypes.
         obj_get (document_paths row) (key doc) =
           Some (collected (calls (final (onSubmit env w data))) (key doc)))) \<and>
   (\<forall>doc f p w'.
      doc \<in> set documentTypes \<and> selected data doc = [f] \<and>
      (\<forall>d \<in> set documentTypes. key d \<noteq> key doc \<longrightarrow> selected data d = []) \<and>
      uploadFile env w f (key doc) (data_companyName data) = (Some p, w') \<and> p \<noteq> [] \<longrightarrow>
      (\<exists>row. inserted (onSubmit env w data) = Some row \<and>
         document_paths row =
           map (\<lambda>d. (key d, if key d = key doc then [p] else [])) documentTypes \<and>
         length (filter (\<lambda>(k, ps). ps = []) (document_paths row)) = 11 \<and>
         length (filter (\<lambda>(k, ps). length ps = 1) (document_paths row)) = 1))"
proof (intro conjI allI impI)
  fix row
  assume "inserted (onSubmit env w data) = Some row"
  then have r: "document_paths row =
      map (\<lambda>doc. (key doc, collected (calls (final (onSubmit env w data))) (key doc))) documentTypes"
    by (rule inserted_paths)
  show "map fst (document_paths row) = map key documentTypes"
    by (simp add: r comp_def)
  show "length (document_paths row) = 12"
    by (simp add: r length_documentTypes)
  show "distinct (map fst (document_paths row))"
    using keys_distinct by (simp add: r comp_def)
  show "\<forall>doc \<in> set documentTypes.
         obj_get (document_paths row) (key doc) =
           Some (collected (calls (final (onSubmit env w data))) (key doc))"
    by (simp add: r obj_get_def map_of_by_key)
next
  fix doc f p w'
  assume a: "doc \<in> set documentTypes \<and> selected data doc = [f] \<and>
      (\<forall>d \<in> set documentTypes. key d \<noteq> key doc \<longrightarrow> selected data d = []) \<and>
      uploadFile env w f (key doc) (data_companyName data) = (Some p, w') \<and> p \<noteq> []"
  then have a1: "doc \<in> set documentTypes" and a2: "selected data doc = [f]"
    and a3: "\<forall>d \<in> set documentTypes. key d \<noteq> key doc \<longrightarrow> selected data d = []"
    and a4: "uploadFile env w f (key doc) (data_companyName data) = (Some p, w')"
    and a5: "p \<noteq> []"
    by simp_all
  have "inserted (onSubmit env w data) =
           Some \<lparr>company_name = data_companyName data,
                  document_paths = map (\<lambda>d. (key d, if key d = key doc then [p] else [])) documentTypes,
                  uploaded_at = now_iso env w'\<rparr>"
    by (rule single_success [OF a1 a2 a3 a4 a5])
  then show "\<exists>row. inserted (onSubmit env w data) = Some row \<and>
         document_paths row =
           map (\<lambda>d. (key d, if key d = key doc then [p] else [])) documentTypes \<and>
         length (filter (\<lambda>(k, ps). ps = []) (document_paths row)) = 11 \<and>
         length (filter (\<lambda>(k, ps). length ps = 1) (document_paths row)) = 1"
    using count_empty_lists [OF a1 a5] by simp
qed

lemma invoice_doc_listed: "invoice_doc \<in> set documentTypes"
  by (simp add: invoice_doc_def documentTypes_def)

lemma one_invoice_selected:
  "selected one_invoice invoice_doc = [invoice_file]"
  "\<forall>d \<in> set documentTypes. key d \<noteq> key invoice_doc \<longrightarrow> selected one_invoice d = []"
  by (simp_all add: selected_def one_invoice_def invoice_doc_def documentTypes_def str_def)

lemma invoice_upload:
  "uploadFile flaky_browser 1 invoice_file (key invoice_doc) (data_companyName one_invoice)
     = (Some invoice_path, 2)"
proof -
  have "fetch flaky_browser 1 \<lparr>file_entry = Some invoice_file,
            folder = Some (str ''commercialInvoice''), companyName = Some (str ''Acme Co.'')\<rparr>
        = (Returns \<lparr>status = 200, body = Some \<lparr>path = Some invoice_path, error = None\<rparr>\<rparr>, 2)"
    by (simp add: flaky_browser_def flaky_fetch_def POST_def falsy_def multipart_def
          template_string_def upload_stores_def json_response_def invoice_file_def
          invoice_path_def sanitizer_defs nfd_decomposed_def)
  then show ?thesis
    by (simp add: uploadFile_def ok_def invoice_doc_def one_invoice_def)
qed

lemma invoice_path_nonempty: "invoice_path \<noteq> []"
  by (simp add: invoice_path_def str_def)

theorem onSubmit_row_has_twelve_keys_witness:
  "map_option document_paths (inserted (onSubmit flaky_browser 1 one_invoice)) =
     Some [(str ''companyRegistration'', []), (str ''companyDeclaration'', []),
           (str ''importPermit'', []), (str ''tk10'', []), (str ''tk11'', []),
           (str ''tk32'', []), (str ''tk31'', []), (str ''purchaseOrder'', []),
           (str ''idCardCopy'', []), (str ''msds'', []),
           (str ''commercialInvoice'', [invoice_path]), (str ''packingList'', [])]"
proof -
  have "invoice_doc \<in> set documentTypes \<and> selected one_invoice invoice_doc = [invoice_file] \<and>
      (\<forall>d \<in> set documentTypes. key d \<noteq> key invoice_doc \<longrightarrow> selected one_invoice d = []) \<and>
      uploadFile flaky_browser 1 invoice_file (key invoice_doc) (data_companyName one_invoice)
        = (Some invoice_path, 2) \<and> invoice_path \<noteq> []"
    by (intro conjI invoice_doc_listed one_invoice_selected invoice_upload invoice_path_nonempty)
  with onSubmit_row_has_twelve_keys [of flaky_browser 1 one_invoice]
  obtain row where "inserted (onSubmit flaky_browser 1 one_invoice) = Some row"
    and "document_paths row =
           map (\<lambda>d. (key d, if key d = key invoice_doc then [invoice_path] else [])) documentTypes"
    by blast
  then show ?thesis
    by (simp add: documentTypes_def invoice_doc_def str_def)
qed




section \<open>Properties of the upload route\<close>

text \<open>
  Claim C5, as stated, says that the route answers 400 exactly when one of the fields
  \<open>file\<close>, \<open>folder\<close>, \<open>companyName\<close> is absent. It does not: a form with all three
  fields, the folder being the empty string, is answered with 400.
\<close>

theorem POST_empty_folder_400:
  "\<not> (status (POST nfd_decomposed upload_stores 1700000000000 (Returns empty_folder_form)) = 400
        \<longleftrightarrow> get_file empty_folder_form = None \<or> get_folder empty_folder_form = None \<or>
            get_companyName empty_folder_form = None)"
  by (simp add: POST_def falsy_def empty_folder_form_def invoice_form_def json_response_def)

lemma falsy_iff: "falsy v \<longleftrightarrow> absent_or_empty v"
  by (auto simp: falsy_def absent_or_empty_def split: option.splits form_entry.splits)

lemma status_server_error: "status server_error = 500"
  by (simp add: server_error_def json_response_def)

text \<open>
  Claim C5, amended: on a form that could be read, the route answers 400 with the error
  body "Missing required fields" exactly when one of the fields \<open>file\<close>, \<open>folder\<close>,
  \<open>companyName\<close> is absent or the empty string. Otherwise, with a file in \<open>file\<close> and a
  string in \<open>companyName\<close>, it answers 500 with the storage client's message when the
  client returns an error, and 200 with the path when it returns data and no error. In
  every other case it answers 500 with "Server error occurred": when the storage client
  throws or returns neither data nor error, when \<open>file\<close> holds a string or
  \<open>companyName\<close> a file, and when the form cannot be read.
\<close>

theorem POST_responses:
  "(status (POST nfd upload timestamp (Returns formData)) = 400 \<longleftrightarrow>
      absent_or_empty (get_file formData) \<or> absent_or_empty (get_folder formData) \<or>
      absent_or_empty (get_companyName formData)) \<and>
   (absent_or_empty (get_file formData) \<or> absent_or_empty (get_folder formData) \<or>
      absent_or_empty (get_companyName formData) \<longrightarrow>
      POST nfd upload timestamp (Returns formData) =
        json_response \<lparr>path = None, error = Some (str ''Missing required fields'')\<rparr> 400) \<and>
   (\<forall>f cn.
      get_file formData = Some (File_value f) \<and> \<not> absent_or_empty (get_folder formData) \<and>
      get_companyName formData = Some (String_value cn) \<and> cn \<noteq> [] \<longrightarrow>
      (\<forall>r m. upload (storagePath nfd (template_string (get_folder formData)) cn (name f) timestamp)
               (content f) (content_type f) = Returns r \<and> upload_error r = Some m \<longrightarrow>
           POST nfd upload timestamp (Returns formData) =
             json_response \<lparr>path = None, error = Some m\<rparr> 500) \<and>
      (\<forall>r p. upload (storagePath nfd (template_string (get_folder formData)) cn (name f) timestamp)
               (content f) (content_type f) = Returns r \<and> upload_error r = None \<and>
             data_path r = Some p \<longrightarrow>
           POST nfd upload timestamp (Returns formData) =
             json_response \<lparr>path = Some p, error = None\<rparr> 200) \<and>
      (upload (storagePath nfd (template_string (get_folder formData)) cn (name f) timestamp)
         (content f) (content_type f) = Throws \<or>
       upload (storagePath nfd (template_string (get_folder formData)) cn (name f) timestamp)
         (content f) (content_type f) = Returns \<lparr>data_path = None, upload_error = None\<rparr> \<longrightarrow>
           POST nfd upload timestamp (Returns formData) = server_error)) \<and>
   (\<not> absent_or_empty (get_file formData) \<and> \<not> absent_or_empty (get_folder formData) \<and>
    \<not> absent_or_empty (get_companyName formData) \<and>
    ((\<exists>s. get_file formData = Some (String_value s)) \<or>
     (\<exists>g. get_companyName formData = Some (File_value g))) \<longrightarrow>
      POST nfd upload timestamp (Returns formData) = server_error) \<and>
   POST nfd upload timestamp Throws = server_error \<and>
   server_error =
     json_response \<lparr>path = None, error = Some (str ''Server error occurred'')\<rparr> 500"
proof (intro conjI allI impI)
  show "status (POST nfd upload timestamp (Returns formData)) = 400 \<longleftrightarrow>
      absent_or_empty (get_file formData) \<or> absent_or_empty (get_folder formData) \<or>
      absent_or_empty (get_companyName formData)"
    by (simp add: POST_def falsy_iff json_response_def status_server_error
          split: option.splits form_entry.splits attempt.splits)
next
  assume "absent_or_empty (get_file formData) \<or> absent_or_empty (get_folder formData) \<or>
      absent_or_empty (get_companyName formData)"
  then show "POST nfd upload timestamp (Returns formData) =
        json_response \<lparr>path = None, error = Some (str ''Missing required fields'')\<rparr> 400"
    by (simp add: POST_def falsy_iff)
next
  fix f cn r m
  assume "get_file formData = Some (File_value f) \<and> \<not> absent_or_empty (get_folder formData) \<and>
      get_companyName formData = Some (String_value cn) \<and> cn \<noteq> []"
    and "upload (storagePath nfd (template_string (get_folder formData)) cn (name f) timestamp)
               (content f) (content_type f) = Returns r \<and> upload_error r = Some m"
  then show "POST nfd upload timestamp (Returns formData) =
             json_response \<lparr>path = None, error = Some m\<rparr> 500"
    by (auto simp: POST_def falsy_iff absent_or_empty_def)
next
  fix f cn r p
  assume "get_file formData = Some (File_value f) \<and> \<not> absent_or_empty (get_folder formData) \<and>
      get_companyName formData = Some (String_value cn) \<and> cn \<noteq> []"
    and "upload (storagePath nfd (template_string (get_folder formData)) cn (name f) timestamp)
               (content f) (content_type f) = Returns r \<and> upload_error r = None \<and>
             data_path r = Some p"
  then show "POST nfd upload timestamp (Returns formData) =
             json_response \<lparr>path = Some p, error = None\<rparr> 200"
    by (auto simp: POST_def falsy_iff absent_or_empty_def)
next
  fix f cn
  assume "get_file formData = Some (File_value f) \<and> \<not> absent_or_empty (get_folder formData) \<and>
      get_companyName formData = Some (String_value cn) \<and> cn \<noteq> []"
    and "upload (storagePath nfd (template_string (get_folder formData)) cn (name f) timestamp)
         (content f) (content_type f) = Throws \<or>
       upload (storagePath nfd (template_string (get_folder formData)) cn (name f) timestamp)
         (content f) (content_type f) = Returns \<lparr>data_path = None, upload_error = None\<rparr>"
  then show "POST nfd upload timestamp (Returns formData) = server_error"
    by (auto simp: POST_def falsy_iff absent_or_empty_def)
next
  assume "\<not> absent_or_empty (get_file formData) \<and> \<not> absent_or_empty (get_folder formData) \<and>
    \<not> absent_or_empty (get_companyName formData) \<and>
    ((\<exists>s. get_file formData = Some (String_value s)) \<or>
     (\<exists>g. get_companyName formData = Some (File_value g)))"
  then show "POST nfd upload timestamp (Returns formData) = server_error"
    by (auto simp: POST_def falsy_iff split: option.splits form_entry.splits)
next
  show "POST nfd upload timestamp Throws = server_error"
    by (simp add: POST_def)
next
  show "server_error =
     json_response \<lparr>path = None, error = Some (str ''Server error occurred'')\<rparr> 500"
    by (simp add: server_error_def)
qed

lemma invoice_form_fields:
  "get_file invoice_form = Some (File_value invoice_file) \<and>
   \<not> absent_or_empty (get_folder invoice_form) \<and>
   get_companyName invoice_form = Some (String_value (str ''Acme Co.'')) \<and> str ''Acme Co.'' \<noteq> []"
  by (simp add: invoice_form_def absent_or_empty_def str_def)

lemma invoice_storagePath:
  "storagePath nfd_decomposed (template_string (get_folder invoice_form)) (str ''Acme Co.'')
     (name invoice_file) 1700000000000 = invoice_path"
  by (simp add: invoice_form_def template_string_def invoice_file_def invoice_path_def
        sanitizer_defs nfd_decomposed_def)

theorem POST_responses_witness:
  "POST nfd_decomposed upload_stores 1700000000000 (Returns empty_folder_form) =
     json_response \<lparr>path = None, error = Some (str ''Missing required fields'')\<rparr> 400 \<and>
   POST nfd_decomposed upload_stores 1700000000000 (Returns empty_file_form) =
     json_response \<lparr>path = None, error = Some (str ''Missing required fields'')\<rparr> 400 \<and>
   POST nfd_decomposed upload_stores 1700000000000 (Returns invoice_form) =
     json_response \<lparr>path = Some invoice_path, error = None\<rparr> 200 \<and>
   POST nfd_decomposed upload_rejects 1700000000000 (Returns invoice_form) =
     json_response \<lparr>path = None, error = Some (str ''The resource already exists'')\<rparr> 500 \<and>
   POST nfd_decomposed upload_throws 1700000000000 (Returns invoice_form) = server_error \<and>
   POST nfd_decomposed upload_nothing 1700000000000 (Returns invoice_form) = server_error \<and>
   POST nfd_decomposed upload_stores 1700000000000 (Returns text_file_form) = server_error \<and>
   POST nfd_decomposed upload_stores 1700000000000 (Returns company_file_form) = server_error"
proof -
  have e: "absent_or_empty (get_folder empty_folder_form)"
    by (simp add: absent_or_empty_def empty_folder_form_def)
  have e': "absent_or_empty (get_file empty_file_form)"
    by (simp add: absent_or_empty_def empty_file_form_def)
  have s: "upload_stores
             (storagePath nfd_decomposed (template_string (get_folder invoice_form))
                (str ''Acme Co.'') (name invoice_file) 1700000000000)
             (content invoice_file) (content_type invoice_file)
           = Returns \<lparr>data_path = Some invoice_path, upload_error = None\<rparr>"
    by (simp only: invoice_storagePath upload_stores_def)
  have r: "upload_rejects
             (storagePath nfd_decomposed (template_string (get_folder invoice_form))
                (str ''Acme Co.'') (name invoice_file) 1700000000000)
             (content invoice_file) (content_type invoice_file)
           = Returns \<lparr>data_path = None, upload_error = Some (str ''The resource already exists'')\<rparr>"
    by (simp only: upload_rejects_def)
  have t: "upload_throws
             (storagePath nfd_decomposed (template_string (get_folder invoice_form))
                (str ''Acme Co.'') (name invoice_file) 1700000000000)
             (content invoice_file) (content_type invoice_file) = Throws"
    by (simp only: upload_throws_def)
  have n: "upload_nothing
             (storagePath nfd_decomposed (template_string (get_folder invoice_form))
                (str ''Acme Co.'') (name invoice_file) 1700000000000)
             (content invoice_file) (content_type invoice_file)
           = Returns \<lparr>data_path = None, upload_error = None\<rparr>"
    by (simp only: upload_nothing_def)
  have x: "\<not> absent_or_empty (get_file text_file_form) \<and>
           \<not> absent_or_empty (get_folder text_file_form) \<and>
           \<not> absent_or_empty (get_companyName text_file_form) \<and>
           get_file text_file_form = Some (String_value (str ''x''))"
    by (simp add: absent_or_empty_def text_file_form_def invoice_form_def str_def)
  have c: "\<not> absent_or_empty (get_file company_file_form) \<and>
           \<not> absent_or_empty (get_folder company_file_form) \<and>
           \<not> absent_or_empty (get_companyName company_file_form) \<and>
           get_companyName company_file_form = Some (File_value invoice_file)"
    by (simp add: absent_or_empty_def company_file_form_def invoice_form_def str_def)
  from e POST_responses [of nfd_decomposed upload_stores 1700000000000 empty_folder_form]
  have 1: "POST nfd_decomposed upload_stores 1700000000000 (Returns empty_folder_form) =
     json_response \<lparr>path = None, error = Some (str ''Missing required fields'')\<rparr> 400"
    by blast
  from e' POST_responses [of nfd_decomposed upload_stores 1700000000000 empty_file_form]
  have 2: "POST nfd_decomposed upload_stores 1700000000000 (Returns empty_file_form) =
     json_response \<lparr>path = None, error = Some (str ''Missing required fields'')\<rparr> 400"
    by blast
  from s invoice_form_fields POST_responses [of nfd_decomposed upload_stores 1700000000000 invoice_form]
  have 3: "POST nfd_decomposed upload_stores 1700000000000 (Returns invoice_form) =
     json_response \<lparr>path = Some invoice_path, error = None\<rparr> 200"
    by fastforce
  from r invoice_form_fields POST_responses [of nfd_decomposed upload_rejects 1700000000000 invoice_form]
  have 4: "POST nfd_decomposed upload_rejects 1700000000000 (Returns invoice_form) =
     json_response \<lparr>path = None, error = Some (str ''The resource already exists'')\<rparr> 500"
    by fastforce
  from t invoice_form_fields POST_responses [of nfd_decomposed upload_throws 1700000000000 invoice_form]
  have 5: "POST nfd_decomposed upload_throws 1700000000000 (Returns invoice_form) = server_error"
    by blast
  from n invoice_form_fields POST_responses [of nfd_decomposed upload_nothing 1700000000000 invoice_form]
  have 6: "POST nfd_decomposed upload_nothing 1700000000000 (Returns invoice_form) = server_error"
    by blast
  from x POST_responses [of nfd_decomposed upload_stores 1700000000000 text_file_form]
  have 7: "POST nfd_decomposed upload_stores 1700000000000 (Returns text_file_form) = server_error"
    by blast
  from c POST_responses [of nfd_decomposed upload_stores 1700000000000 company_file_form]
  have 8: "POST nfd_decomposed upload_stores 1700000000000 (Returns company_file_form) = server_error"
    by blast
  from 1 2 3 4 5 6 7 8 show ?thesis by simp
qed


section \<open>Properties of the submissions page\<close>

lemma collect_Inr: "collect (map (\<lambda>x. Inr (f x)) xs) = Inr (map f xs)"
  by (induction xs) simp_all

lemma render_block_has_paths:
  "has_paths (snd entry) \<Longrightarrow>
   render_block publicUrl toUpperCase entry = Inr (block_of publicUrl toUpperCase entry)"
  by (cases entry) (auto simp: render_block_def block_of_def has_paths_def split: option.splits)

lemma collect_blocks:
  "collect (map (render_block publicUrl toUpperCase) (filter (\<lambda>(docType, paths). has_paths paths) es))
     = Inr (map (block_of publicUrl toUpperCase) (filter (\<lambda>(docType, paths). has_paths paths) es))"
proof -
  have "map (render_block publicUrl toUpperCase) (filter (\<lambda>(docType, paths). has_paths paths) es)
        = map (\<lambda>e. Inr (block_of publicUrl toUpperCase e)) (filter (\<lambda>(docType, paths). has_paths paths) es)"
    by (rule map_cong) (auto simp: render_block_has_paths)
  then show ?thesis by (simp only: collect_Inr)
qed

lemma element_types_append: "element_types (xs @ ys) = element_types xs @ element_types ys"
  by (induction xs rule: element_types.induct) auto

lemma element_notes_append: "element_notes (xs @ ys) = element_notes xs @ element_notes ys"
  by (induction xs rule: element_notes.induct) auto

lemma element_types_blocks:
  "element_types (map (block_of publicUrl toUpperCase) es) = map fst es"
  by (induction es) (simp_all add: block_of_def)

lemma element_notes_blocks:
  "element_notes (map (block_of publicUrl toUpperCase) es) = []"
  by (induction es) (simp_all add: block_of_def)

lemma render_documents_eq:
  "render_documents publicUrl toUpperCase doc_paths =
     Inr (if entries_of doc_paths = [] then Paragraph ''No documents found for this submission.''
          else Container
            (map (block_of publicUrl toUpperCase)
               (filter (\<lambda>(docType, paths). has_paths paths) (entries_of doc_paths)) @
             (if list_all (\<lambda>(docType, paths). \<not> has_paths paths) (entries_of doc_paths)
              then [Note ''No documents found for this submission type.''] else [])))"
proof (cases doc_paths)
  case None
  then show ?thesis by (simp add: render_documents_def entries_of_def)
next
  case (Some kvs)
  have v: "list_all (\<lambda>paths. \<not> has_paths paths) (map snd kvs)
           = list_all (\<lambda>(docType, paths). \<not> has_paths paths) kvs"
    by (simp add: list_all_iff case_prod_unfold)
  show ?thesis
    unfolding Some render_documents_def entries_of_def Object_keys_def Object_entries_def
      Object_values_def
    by (simp add: collect_blocks v)
qed

text \<open>
  Claim C9: the rendering of a submission's documents never throws; it has a block for
  exactly the document types whose path list is non-empty, in the order of the stored
  object, and when every list is empty (or there is none) it has no block and a single
  "no documents" placeholder, which is absent otherwise.
\<close>

theorem render_documents_omits_empty:
  "\<exists>view. render_documents publicUrl toUpperCase doc_paths = Inr view \<and>
     block_types view =
       map fst (filter (\<lambda>(docType, paths). has_paths paths) (entries_of doc_paths)) \<and>
     (if list_all (\<lambda>(docType, paths). \<not> has_paths paths) (entries_of doc_paths)
      then block_types view = [] \<and> length (placeholders view) = 1
      else placeholders view = [])"
  by (auto simp: render_documents_eq element_types_append element_notes_append
        element_types_blocks element_notes_blocks list_all_iff filter_empty_conv)

theorem render_documents_omits_empty_witness:
  "map_sum id block_types (render_documents public_url upper_ascii one_list) = Inr [str ''msds''] \<and>
   map_sum id placeholders (render_documents public_url upper_ascii one_list) = Inr [] \<and>
   map_sum id block_types (render_documents public_url upper_ascii empty_lists) = Inr [] \<and>
   map_sum id (\<lambda>view. length (placeholders view))
     (render_documents public_url upper_ascii empty_lists) = Inr 1"
proof -
  from render_documents_omits_empty [of public_url upper_ascii one_list]
  obtain v where "render_documents public_url upper_ascii one_list = Inr v"
    and "block_types v = [str ''msds'']" and "placeholders v = []"
    by (auto simp: one_list_def entries_of_def has_paths_def)
  moreover
  from render_documents_omits_empty [of public_url upper_ascii empty_lists]
  obtain v' where "render_documents public_url upper_ascii empty_lists = Inr v'"
    and "block_types v' = []" and "length (placeholders v') = 1"
    by (auto simp: empty_lists_def entries_of_def has_paths_def)
  ultimately show ?thesis by simp
qed

text \<open>
  Claim C10: for a submission whose \<open>document_paths\<close> is \<open>null\<close> or an object without
  keys, the rendering does not throw: it is the paragraph "No documents found for this
  submission.".
\<close>

theorem render_documents_null_or_empty:
  "render_documents publicUrl toUpperCase None
     = Inr (Paragraph ''No documents found for this submission.'') \<and>
   render_documents publicUrl toUpperCase (Some [])
     = Inr (Paragraph ''No documents found for this submission.'')"
  by (simp add: render_documents_def Object_keys_def)

end
